theory Spec2Isabelle
  imports Main "HOL-Library.Word" "HOL-Library.AList"
begin

section \<open>Wire frames of the tunnel\<close>

text \<open>
  The frames are the protobuf messages of package \<open>tunnel\<close> as the agent and the
  controller build and read them. Go strings are \<open>string\<close>, byte slices are lists of
  8-bit words, \<open>int32\<close> and \<open>int64\<close> are 32- and 64-bit words and Go's \<open>int\<close> is a
  64-bit word. A field that a composite literal leaves out has Go's zero value.
\<close>

type_synonym byte = "8 word"
type_synonym go_int = "64 word"

text \<open>The run-time panics of Go that the modelled code can raise.\<close>

datatype panic = NilPointerDereference | IndexOutOfRange

text \<open>\<open>tunnel.CurrentProtocolVersion\<close>, an untyped constant.\<close>

definition CurrentProtocolVersion :: int where
  "CurrentProtocolVersion = 10"

record HttpHeader =
  hdr_Name :: string
  hdr_Values :: "string list"

record HttpRequest =
  req_Id :: string
  req_Target :: string
  req_Method :: string
  req_URI :: string
  req_Headers :: "HttpHeader list"
  req_Body :: "byte list"

record HttpResponse =
  resp_Id :: string
  resp_Target :: string
  resp_Status :: "32 word"
  resp_ContentLength :: "64 word"
  resp_Headers :: "HttpHeader list"

record HttpChunkedResponse =
  chunk_Id :: string
  chunk_Target :: string
  chunk_Body :: "byte list"

record AgentHello =
  Protocols :: "string list"
  CommandNames :: "string list"
  KubernetesNamespaces :: "string list"
  ProtocolVersion :: int

text \<open>
  \<open>ASEventWrapper\<close> (agent to controller) is a struct whose only field \<open>Event\<close> is a
  oneof; \<open>AS_Nil\<close> is the wrapper whose \<open>Event\<close> is nil.
\<close>

datatype ASEventWrapper =
    AS_Nil
  | AS_AgentHello AgentHello
  | AS_PingRequest "64 word"
  | AS_HttpResponse HttpResponse
  | AS_HttpChunkedResponse HttpChunkedResponse

text \<open>\<open>http.StatusBadGateway\<close>, an untyped constant used as \<open>int32\<close> and as \<open>int\<close>.\<close>

definition StatusBadGateway :: "'a::len word" where
  "StatusBadGateway = 502"

section \<open>The header map of net/http\<close>

text \<open>
  \<open>http.Header\<close> is a Go map from names to value lists. It is modelled as an
  association list: the order of the list stands for the order in which a \<open>range\<close>
  loop happens to visit the map, which Go leaves unspecified, so every theorem below
  holds for each order. \<open>Add\<close>, \<open>Set\<close> and \<open>Del\<close> canonicalise the name first
  (\<open>textproto.CanonicalMIMEHeaderKey\<close>); that function belongs to the standard
  library and is a parameter \<open>canon\<close> of the model.
\<close>

type_synonym Header = "(string \<times> string list) list"

definition Header_get :: "Header \<Rightarrow> string \<Rightarrow> string list" where
  "Header_get h k = (case map_of h k of None \<Rightarrow> [] | Some vs \<Rightarrow> vs)"

definition Header_Add :: "(string \<Rightarrow> string) \<Rightarrow> string \<Rightarrow> string \<Rightarrow> Header \<Rightarrow> Header" where
  "Header_Add canon key v h =
     (let k = canon key in AList.update k (Header_get h k @ [v]) h)"

definition Header_Set :: "(string \<Rightarrow> string) \<Rightarrow> string \<Rightarrow> string \<Rightarrow> Header \<Rightarrow> Header" where
  "Header_Set canon key v h = AList.update (canon key) [v] h"

definition Header_Del :: "(string \<Rightarrow> string) \<Rightarrow> string \<Rightarrow> Header \<Rightarrow> Header" where
  "Header_Del canon key h = AList.delete (canon key) h"

text \<open>
  The nested loop that both programs use to copy the headers of a frame into a header
  map: \<open>for _, header := range hs { for _, value := range header.Values {
  h.Add(header.Name, value) } }\<close>.
\<close>

definition addHeaders :: "(string \<Rightarrow> string) \<Rightarrow> HttpHeader list \<Rightarrow> Header \<Rightarrow> Header" where
  "addHeaders canon hs h =
     foldl (\<lambda>h1 header.
              foldl (\<lambda>h2 v. Header_Add canon (hdr_Name header) v h2) h1 (hdr_Values header))
           h hs"

section \<open>The agent: cancel registry\<close>

text \<open>
  The agent's state as far as the executor touches it: the cancel registry (a map from
  request ids to cancel functions, behind one mutex), the frames sent into the
  \<open>dataflow\<close> channel so far, oldest first, and the cancel functions that have been
  called. A cancel function is named by a number. Each function below is one critical
  section or one channel send; the interleaving of several goroutines is not part of
  the model, and a send into \<open>dataflow\<close> is taken to go through.
\<close>

type_synonym CancelFunc = nat

record agent_state =
  cancelRegistry :: "string \<rightharpoonup> CancelFunc"
  dataflow :: "ASEventWrapper list"
  cancelled :: "CancelFunc list"

definition registerCancelFunction :: "string \<Rightarrow> CancelFunc \<Rightarrow> agent_state \<Rightarrow> agent_state" where
  "registerCancelFunction id' cancel s = s\<lparr>cancelRegistry := (cancelRegistry s)(id' \<mapsto> cancel)\<rparr>"

definition unregisterCancelFunction :: "string \<Rightarrow> agent_state \<Rightarrow> agent_state" where
  "unregisterCancelFunction id' s = s\<lparr>cancelRegistry := (cancelRegistry s)(id' := None)\<rparr>"

definition callCancelFunction :: "string \<Rightarrow> agent_state \<Rightarrow> agent_state" where
  "callCancelFunction id' s =
     (case cancelRegistry s id' of
        Some cancel \<Rightarrow> s\<lparr>cancelled := cancelled s @ [cancel]\<rparr>
      | None \<Rightarrow> s)"

definition send :: "ASEventWrapper \<Rightarrow> agent_state \<Rightarrow> agent_state" where
  "send ew s = s\<lparr>dataflow := dataflow s @ [ew]\<rparr>"

section \<open>The agent: the HTTP executor\<close>

text \<open>
  The credential snapshot. \<open>serverContext\<close> of the executor's file and
  \<open>serverContextFields\<close> of \<open>app/agent/agent.go\<close> have the same six fields. A nil
  pointer is \<open>None\<close>. An X.509 certificate is its DER bytes (\<open>Raw\<close>); a TLS key pair
  is its certificate chain, leaf first, and its private key.
\<close>

datatype x509_Certificate = X509 (Raw: "byte list")

record tls_Certificate =
  Certificate :: "byte list list"
  PrivateKey :: "byte list"

record serverContextFields =
  username :: string
  serverURL :: string
  serverCA :: "x509_Certificate option"
  clientCert :: "tls_Certificate option"
  token :: string
  insecure :: bool

record tls_Config =
  MinVersion :: nat
  InsecureSkipVerify :: bool
  RootCAs :: "x509_Certificate list option"
  Certificates :: "tls_Certificate list"

record http_Transport =
  MaxIdleConns :: nat
  IdleConnTimeout_seconds :: nat
  DisableCompression :: bool
  TLSClientConfig :: tls_Config

definition VersionTLS12 :: nat where
  "VersionTLS12 = 771"

text \<open>
  The outbound request and the backend's answer. \<open>get.Body\<close> is an \<open>io.Reader\<close>: it
  is modelled by the list of results its successive \<open>Read\<close> calls give, each the
  bytes read (\<open>buf[:n]\<close>) and the error. \<open>Canceled\<close> is \<open>context.Canceled\<close>.
\<close>

datatype read_err = ErrNil | EOF | Canceled | ErrOther string

record http_ClientRequest =
  hr_Method :: string
  hr_URL :: string
  hr_Header :: Header
  hr_Body :: "byte list"

record http_Response =
  get_StatusCode :: go_int
  get_ContentLength :: "64 word"
  get_Header :: Header
  get_Body :: "(byte list \<times> read_err) list"

text \<open>
  What the standard library and the backend decide: the canonical form of a header
  name, whether \<open>http.NewRequestWithContext\<close> rejects a method and URL, and what
  \<open>client.Do\<close> returns for a request over a transport.
\<close>

record stdlib =
  CanonicalMIMEHeaderKey :: "string \<Rightarrow> string"
  NewRequest_error :: "string \<Rightarrow> string \<Rightarrow> string option"
  client_Do :: "http_Transport \<Rightarrow> http_ClientRequest \<Rightarrow> string + http_Response"

definition NewRequestWithContext ::
    "stdlib \<Rightarrow> string \<Rightarrow> string \<Rightarrow> byte list \<Rightarrow> string + http_ClientRequest" where
  "NewRequestWithContext env method url body =
     (case NewRequest_error env method url of
        Some err \<Rightarrow> Inl err
      | None \<Rightarrow> Inr \<lparr>hr_Method = method, hr_URL = url, hr_Header = [], hr_Body = body\<rparr>)"

text \<open>The agent's \<open>makeHeaders\<close>: one \<open>HttpHeader\<close> per entry of the map.\<close>

definition agent_makeHeaders :: "Header \<Rightarrow> HttpHeader list" where
  "agent_makeHeaders headers =
     foldl (\<lambda>ret (name, values). ret @ [\<lparr>hdr_Name = name, hdr_Values = values\<rparr>]) [] headers"

text \<open>Lines 82 to 100 of \<open>executeRequest\<close>: the TLS configuration and the transport.\<close>

definition makeTransport :: "serverContextFields \<Rightarrow> http_Transport" where
  "makeTransport c =
     (let tlsConfig = \<lparr>MinVersion = VersionTLS12, InsecureSkipVerify = insecure c,
                        RootCAs = None, Certificates = []\<rparr>;
          tlsConfig = (case serverCA c of
                         Some ca \<Rightarrow> tlsConfig\<lparr>RootCAs := Some [ca]\<rparr>
                       | None \<Rightarrow> tlsConfig);
          tlsConfig = (case clientCert c of
                         Some cc \<Rightarrow> tlsConfig\<lparr>Certificates := [cc]\<rparr>
                       | None \<Rightarrow> tlsConfig)
      in \<lparr>MaxIdleConns = 10, IdleConnTimeout_seconds = 30, DisableCompression = True,
          TLSClientConfig = tlsConfig\<rparr>)"

text \<open>Lines 128 to 135: the frame's headers are copied and the bearer token is set.\<close>

definition outboundRequest ::
    "stdlib \<Rightarrow> serverContextFields \<Rightarrow> HttpRequest \<Rightarrow> http_ClientRequest \<Rightarrow> http_ClientRequest" where
  "outboundRequest env c req httpRequest =
     (let h = addHeaders (CanonicalMIMEHeaderKey env) (req_Headers req) (hr_Header httpRequest);
          h = (if length (token c) > 0
               then Header_Set (CanonicalMIMEHeaderKey env) ''Authorization'' (''Bearer '' @ token c) h
               else h)
      in httpRequest\<lparr>hr_Header := h\<rparr>)"

definition badGatewayFrame :: "HttpRequest \<Rightarrow> ASEventWrapper" where
  "badGatewayFrame req =
     AS_HttpResponse \<lparr>resp_Id = req_Id req, resp_Target = req_Target req,
                      resp_Status = StatusBadGateway, resp_ContentLength = 0, resp_Headers = []\<rparr>"

definition headerFrame :: "HttpRequest \<Rightarrow> http_Response \<Rightarrow> ASEventWrapper" where
  "headerFrame req get =
     AS_HttpResponse \<lparr>resp_Id = req_Id req, resp_Target = req_Target req,
                      resp_Status = ucast (get_StatusCode get),
                      resp_ContentLength = get_ContentLength get,
                      resp_Headers = agent_makeHeaders (get_Header get)\<rparr>"

definition chunkFrame :: "HttpRequest \<Rightarrow> byte list \<Rightarrow> ASEventWrapper" where
  "chunkFrame req body =
     AS_HttpChunkedResponse \<lparr>chunk_Id = req_Id req, chunk_Target = req_Target req,
                             chunk_Body = body\<rparr>"

text \<open>
  The body loop, lines 169 to 216. Each round reads once; a read with a non-nil error
  ends the loop. When the reader's results run out without an error the loop has not
  returned: the value is \<open>None\<close>.
\<close>

fun readLoop :: "HttpRequest \<Rightarrow> (byte list \<times> read_err) list \<Rightarrow> agent_state \<Rightarrow> agent_state option" where
  "readLoop req [] s = None"
| "readLoop req ((buf, err) # rest) s =
     (let s1 = (if length buf > 0 then send (chunkFrame req buf) s else s) in
      if err = EOF then Some (send (chunkFrame req []) s1)
      else if err = Canceled then Some s1
      else if err \<noteq> ErrNil then Some (send (chunkFrame req []) s1)
      else readLoop req rest s1)"

text \<open>
  \<open>executeRequest_body\<close> is the function from the \<open>defer\<close> statement on (lines 112 to
  216); \<open>executeRequest\<close> registers the cancel function, runs the body and, on every
  return of the body, runs the deferred \<open>unregisterCancelFunction\<close>.
\<close>

definition executeRequest_body ::
    "stdlib \<Rightarrow> serverContextFields \<Rightarrow> HttpRequest \<Rightarrow> agent_state \<Rightarrow> agent_state option" where
  "executeRequest_body env c req s =
     (case NewRequestWithContext env (req_Method req) (serverURL c @ req_URI req) (req_Body req) of
        Inl err \<Rightarrow> Some (send (badGatewayFrame req) s)
      | Inr httpRequest \<Rightarrow>
          (case client_Do env (makeTransport c) (outboundRequest env c req httpRequest) of
             Inl err \<Rightarrow> Some (send (badGatewayFrame req) s)
           | Inr get \<Rightarrow> readLoop req (get_Body get) (send (headerFrame req get) s)))"

definition executeRequest ::
    "stdlib \<Rightarrow> serverContextFields \<Rightarrow> HttpRequest \<Rightarrow> CancelFunc \<Rightarrow> agent_state \<Rightarrow> agent_state option" where
  "executeRequest env c req cancel s =
     map_option (unregisterCancelFunction (req_Id req))
       (executeRequest_body env c req (registerCancelFunction (req_Id req) cancel s))"

text \<open>
  The same three functions, recording the agent's state after each step of the run
  instead of returning the last state only: after the registration, after each send
  into \<open>dataflow\<close>, and after the deferred unregistration. These are the states in which
  another goroutine (the receiver, calling \<open>callCancelFunction\<close>) can find the registry
  while the executor runs.
\<close>

fun readLoop_run :: "HttpRequest \<Rightarrow> (byte list \<times> read_err) list \<Rightarrow> agent_state \<Rightarrow> agent_state list option" where
  "readLoop_run req [] s = None"
| "readLoop_run req ((buf, err) # rest) s =
     (let tr1 = (if length buf > 0 then [send (chunkFrame req buf) s] else []);
          s1 = last (s # tr1) in
      if err = EOF then Some (tr1 @ [send (chunkFrame req []) s1])
      else if err = Canceled then Some tr1
      else if err \<noteq> ErrNil then Some (tr1 @ [send (chunkFrame req []) s1])
      else map_option (\<lambda>tr. tr1 @ tr) (readLoop_run req rest s1))"

definition executeRequest_body_run ::
    "stdlib \<Rightarrow> serverContextFields \<Rightarrow> HttpRequest \<Rightarrow> agent_state \<Rightarrow> agent_state list option" where
  "executeRequest_body_run env c req s =
     (case NewRequestWithContext env (req_Method req) (serverURL c @ req_URI req) (req_Body req) of
        Inl err \<Rightarrow> Some [send (badGatewayFrame req) s]
      | Inr httpRequest \<Rightarrow>
          (case client_Do env (makeTransport c) (outboundRequest env c req httpRequest) of
             Inl err \<Rightarrow> Some [send (badGatewayFrame req) s]
           | Inr get \<Rightarrow>
               map_option (\<lambda>tr. send (headerFrame req get) s # tr)
                 (readLoop_run req (get_Body get) (send (headerFrame req get) s))))"

definition executeRequest_run ::
    "stdlib \<Rightarrow> serverContextFields \<Rightarrow> HttpRequest \<Rightarrow> CancelFunc \<Rightarrow> agent_state \<Rightarrow> agent_state list option" where
  "executeRequest_run env c req cancel s =
     (let s1 = registerCancelFunction (req_Id req) cancel s in
      map_option (\<lambda>tr. s1 # tr @ [unregisterCancelFunction (req_Id req) (last (s1 # tr))])
        (executeRequest_body_run env c req s1))"

section \<open>The agent: hello frame and credential refresher\<close>

text \<open>
  The \<open>hello\<close> frame that each of the two agent programs sends first on its stream:
  \<open>runKubernetesTunnel\<close> of \<open>app/agent/agent.go\<close> and \<open>runTunnel\<close> of the
  executor's file. The argument is \<open>config.Namespaces\<close>. \<open>runTunnel\<close>'s literal
  names only \<open>Protocols\<close> and \<open>KubernetesNamespaces\<close>; the other fields are zero.
\<close>

definition runKubernetesTunnel_hello :: "string list \<Rightarrow> AgentHello" where
  "runKubernetesTunnel_hello namespaces =
     \<lparr>Protocols = [''kubernetes'', ''remote-command''], CommandNames = [''bash''],
      KubernetesNamespaces = namespaces, ProtocolVersion = CurrentProtocolVersion\<rparr>"

definition runTunnel_hello :: "string list \<Rightarrow> AgentHello" where
  "runTunnel_hello namespaces =
     \<lparr>Protocols = [''kubernetes''], CommandNames = [],
      KubernetesNamespaces = namespaces, ProtocolVersion = 0\<rparr>"

text \<open>
  \<open>isSameAs\<close> of \<open>app/agent/agent.go\<close>. \<open>x509.Certificate.Equal\<close> compares the
  \<open>Raw\<close> bytes; \<open>bytes.Compare\<close> of the two leaves is non-zero exactly when they
  differ. Indexing \<open>Certificate[0]\<close> of an empty chain panics.
\<close>

definition x509_Equal :: "x509_Certificate \<Rightarrow> x509_Certificate \<Rightarrow> bool" where
  "x509_Equal a b = (Raw a = Raw b)"

definition isSameAs :: "serverContextFields \<Rightarrow> serverContextFields \<Rightarrow> panic + bool" where
  "isSameAs scf scf2 =
     (if username scf \<noteq> username scf2 \<or> serverURL scf \<noteq> serverURL scf2
         \<or> token scf \<noteq> token scf2 \<or> insecure scf \<noteq> insecure scf2
      then Inr False
      else if (serverCA scf = None \<and> serverCA scf2 \<noteq> None)
            \<or> (serverCA scf \<noteq> None \<and> serverCA scf2 = None)
      then Inr False
      else if (case (serverCA scf, serverCA scf2) of
                 (Some ca, Some ca2) \<Rightarrow> \<not> x509_Equal ca ca2
               | _ \<Rightarrow> False)
      then Inr False
      else if (clientCert scf = None \<and> clientCert scf2 \<noteq> None)
            \<or> (clientCert scf \<noteq> None \<and> clientCert scf2 = None)
      then Inr False
      else (case (clientCert scf, clientCert scf2) of
              (Some cc, Some cc2) \<Rightarrow>
                (case (Certificate cc, Certificate cc2) of
                   (leaf # _, leaf2 # _) \<Rightarrow> if leaf \<noteq> leaf2 then Inr False else Inr True
                 | _ \<Rightarrow> Inl IndexOutOfRange)
            | _ \<Rightarrow> Inr True))"

text \<open>
  \<open>updateServerContextTicker\<close> loops for ever: load, compare, swap, sleep. Its body is
  one round (\<open>saf\<close> is what \<open>loadSecurity\<close> returned, \<open>sa_f\<close> is \<open>sa.f\<close>, and the
  result is the new \<open>sa.f\<close>); the loop is run over the list of the snapshots that the
  successive loads return.
\<close>

definition updateServerContextTicker_body ::
    "serverContextFields \<Rightarrow> serverContextFields \<Rightarrow> panic + serverContextFields" where
  "updateServerContextTicker_body saf sa_f =
     (case isSameAs sa_f saf of
        Inl p \<Rightarrow> Inl p
      | Inr same \<Rightarrow> Inr (if \<not> same then saf else sa_f))"

fun updateServerContextTicker ::
    "serverContextFields list \<Rightarrow> serverContextFields \<Rightarrow> panic + serverContextFields" where
  "updateServerContextTicker [] sa_f = Inr sa_f"
| "updateServerContextTicker (saf # later) sa_f =
     (case updateServerContextTicker_body saf sa_f of
        Inl p \<Rightarrow> Inl p
      | Inr sa_f' \<Rightarrow> updateServerContextTicker later sa_f')"

section \<open>The controller: the inbound HTTP handler\<close>

text \<open>
  The \<open>http.ResponseWriter\<close> as net/http documents it: \<open>w_Header\<close> is the map that
  \<open>w.Header()\<close> returns; the first \<open>WriteHeader\<close> sends the status line together
  with the header map as it is at that moment (\<open>w_sentHeader\<close>), and later calls are
  ignored; \<open>Write\<close> and \<open>Flush\<close> send status 200 first when none has been sent.
\<close>

record ResponseWriter =
  w_Header :: Header
  w_status :: "go_int option"
  w_sentHeader :: Header
  w_body :: "byte list"
  w_flushes :: nat

definition StatusOK :: "'a::len word" where
  "StatusOK = 200"

definition WriteHeader :: "go_int \<Rightarrow> ResponseWriter \<Rightarrow> ResponseWriter" where
  "WriteHeader code w =
     (case w_status w of
        None \<Rightarrow> w\<lparr>w_status := Some code, w_sentHeader := w_Header w\<rparr>
      | Some _ \<Rightarrow> w)"

definition Write :: "byte list \<Rightarrow> ResponseWriter \<Rightarrow> ResponseWriter" where
  "Write b w = (let w1 = WriteHeader StatusOK w in w1\<lparr>w_body := w_body w1 @ b\<rparr>)"

definition Flush :: "ResponseWriter \<Rightarrow> ResponseWriter" where
  "Flush w = (let w1 = WriteHeader StatusOK w in w1\<lparr>w_flushes := w_flushes w1 + 1\<rparr>)"

text \<open>
  The inbound request: \<open>r_TLS_PeerCertificates\<close> holds the subject common names of
  \<open>r.TLS.PeerCertificates\<close>, or \<open>None\<close> when \<open>r.TLS\<close> is nil; \<open>r_Body\<close> is what
  \<open>ioutil.ReadAll(r.Body)\<close> returns.
\<close>

record http_ServerRequest =
  r_TLS_PeerCertificates :: "string list option"
  r_Method :: string
  r_RequestURI :: string
  r_Header :: Header
  r_Body :: "byte list"

text \<open>
  The controller's state as the handler uses it: the request counter by label (a
  Prometheus counter, counted in whole requests) and the registry \<open>agents.m\<close>. A
  connected session is named by a number.
\<close>

type_synonym agentState = nat

record controller_state =
  apiRequestCounter :: "string \<Rightarrow> nat"
  agents :: "string \<rightharpoonup> agentState list"

definition firstLabel :: "string \<Rightarrow> string" where
  "firstLabel name = takeWhile (\<lambda>ch. ch \<noteq> CHR ''.'') name"

text \<open>The controller's \<open>makeHeaders\<close>.\<close>

definition makeHeaders :: "Header \<Rightarrow> HttpHeader list" where
  "makeHeaders headers =
     foldl (\<lambda>ret (name, values).
              if name \<noteq> ''Accept-Encoding''
              then ret @ [\<lparr>hdr_Name = name, hdr_Values = values\<rparr>]
              else ret)
           [] headers"

text \<open>
  What the handler receives on \<open>message.out\<close>, in order: a frame, or the closing of the
  channel. The handler's local variables, with the response writer and the request's
  header map, which the loop updates.
\<close>

datatype recv = Frame ASEventWrapper | Closed

record handler_locals =
  hl_w :: ResponseWriter
  hl_rHeader :: Header
  seenHeader :: bool
  isChunked :: bool
  cleanClose :: bool

text \<open>
  The loop of \<open>kubernetesAPIHandler\<close> (lines 141 to 190). When the channel has nothing
  more to deliver and is not closed, the handler waits for ever: \<open>None\<close>.
\<close>

fun responseLoop :: "(string \<Rightarrow> string) \<Rightarrow> recv list \<Rightarrow> handler_locals \<Rightarrow> handler_locals option" where
  "responseLoop canon [] l = None"
| "responseLoop canon (Closed # rest) l =
     (let l1 = (if \<not> seenHeader l
                then l\<lparr>hl_w := WriteHeader StatusBadGateway (hl_w l)\<rparr>
                else l)
      in Some (l1\<lparr>cleanClose := True\<rparr>))"
| "responseLoop canon (Frame (AS_HttpResponse resp) # rest) l =
     (let l1 = l\<lparr>seenHeader := True, isChunked := (sint (resp_ContentLength resp) < 0)\<rparr>;
          l2 = l1\<lparr>hl_rHeader :=
                    foldl (\<lambda>rh name. Header_Del canon name rh) (hl_rHeader l1)
                          (map fst (w_Header (hl_w l1)))\<rparr>;
          l3 = l2\<lparr>hl_w := (hl_w l2)\<lparr>w_Header :=
                    addHeaders canon (resp_Headers resp) (w_Header (hl_w l2))\<rparr>\<rparr>;
          l4 = l3\<lparr>hl_w := WriteHeader (scast (resp_Status resp)) (hl_w l3)\<rparr>
      in if resp_ContentLength resp = 0 then Some (l4\<lparr>cleanClose := True\<rparr>)
         else responseLoop canon rest l4)"
| "responseLoop canon (Frame (AS_HttpChunkedResponse resp) # rest) l =
     (if \<not> seenHeader l then Some (l\<lparr>hl_w := WriteHeader StatusBadGateway (hl_w l)\<rparr>)
      else if length (chunk_Body resp) = 0 then Some (l\<lparr>cleanClose := True\<rparr>)
      else let l1 = l\<lparr>hl_w := Write (chunk_Body resp) (hl_w l)\<rparr>;
               l2 = (if isChunked l1 then l1\<lparr>hl_w := Flush (hl_w l1)\<rparr> else l1)
           in responseLoop canon rest l2)"
| "responseLoop canon (Frame AS_Nil # rest) l = responseLoop canon rest l"
| "responseLoop canon (Frame _ # rest) l = responseLoop canon rest l"

text \<open>
  The handler. Its inputs beside the writer and the request: the canonical form of
  header names, the random generator \<open>rnd.Intn\<close> (the real one returns a number below
  its argument, so the index check that follows it never fails), the id that
  \<open>ulidContext.Ulid()\<close> mints, and what arrives on \<open>message.out\<close>. The result holds the
  counter after the call, the request handed to an agent's \<open>inHTTPRequest\<close> channel if
  any, and how the handler came back: no agent, returned from the loop, or blocked in
  it. The goroutine that watches for the client's disconnect is not modelled.
\<close>

datatype handler_return = NoAgent ResponseWriter | Returned handler_locals | Blocked

record handler_outcome =
  out_counter :: "string \<Rightarrow> nat"
  out_forwarded :: "(agentState \<times> HttpRequest) option"
  out_return :: handler_return

definition kubernetesAPIHandler ::
    "(string \<Rightarrow> string) \<Rightarrow> (nat \<Rightarrow> nat) \<Rightarrow> string \<Rightarrow> recv list \<Rightarrow> controller_state
       \<Rightarrow> ResponseWriter \<Rightarrow> http_ServerRequest \<Rightarrow> panic + handler_outcome" where
  "kubernetesAPIHandler canon Intn ulid out st w r =
     (case r_TLS_PeerCertificates r of
        None \<Rightarrow> Inl NilPointerDereference
      | Some [] \<Rightarrow> Inl IndexOutOfRange
      | Some (cn # _) \<Rightarrow>
          (let agentname = firstLabel cn;
               counter = (apiRequestCounter st)(agentname := apiRequestCounter st agentname + 1);
               agentList = (case agents st agentname of None \<Rightarrow> [] | Some xs \<Rightarrow> xs)
           in if agents st agentname = None \<or> length agentList = 0
              then Inr \<lparr>out_counter = counter, out_forwarded = None,
                        out_return = NoAgent (WriteHeader StatusBadGateway w)\<rparr>
              else if Intn (length agentList) \<ge> length agentList then Inl IndexOutOfRange
              else
                (let agent = agentList ! Intn (length agentList);
                     req = \<lparr>req_Id = ulid, req_Target = agentname, req_Method = r_Method r,
                            req_URI = r_RequestURI r, req_Headers = makeHeaders (r_Header r),
                            req_Body = r_Body r\<rparr>
                 in Inr \<lparr>out_counter = counter, out_forwarded = Some (agent, req),
                          out_return =
                            (case responseLoop canon out
                                    \<lparr>hl_w = w, hl_rHeader = r_Header r, seenHeader = False,
                                     isChunked = False, cleanClose = False\<rparr> of
                               None \<Rightarrow> Blocked
                             | Some l \<Rightarrow> Returned l)\<rparr>)))"

section \<open>Notions used in the statements\<close>

text \<open>
  Two notions used to state what the executor emits; neither is code of the agent.
  \<open>dataChunks\<close> is the list of chunk frames for the non-empty reads among \<open>bufs\<close>.
  \<open>reaches_return\<close> says that a run of \<open>executeRequest\<close> reaches one of its
  \<open>return\<close> statements: the request cannot be built, the call fails, or some read of
  the body gives an error (end of file, cancellation or any other).
\<close>

definition dataChunks :: "HttpRequest \<Rightarrow> byte list list \<Rightarrow> ASEventWrapper list" where
  "dataChunks req bufs = map (chunkFrame req) (filter (\<lambda>b. length b > 0) bufs)"

definition reaches_return :: "stdlib \<Rightarrow> serverContextFields \<Rightarrow> HttpRequest \<Rightarrow> bool" where
  "reaches_return env c req =
     (case NewRequestWithContext env (req_Method req) (serverURL c @ req_URI req) (req_Body req) of
        Inl err \<Rightarrow> True
      | Inr httpRequest \<Rightarrow>
          (case client_Do env (makeTransport c) (outboundRequest env c req httpRequest) of
             Inl err \<Rightarrow> True
           | Inr get \<Rightarrow> list_ex (\<lambda>r. snd r \<noteq> ErrNil) (get_Body get)))"

text \<open>
  The difference between two credential snapshots in the words of the specification:
  by username, server URL, token, CA certificate bytes, or client certificate leaf.
  \<open>has_leaf\<close> says that a client certificate, when present, has a non-empty chain, as
  every key pair that \<open>tls.X509KeyPair\<close> returns has.
\<close>

definition leaf_of :: "tls_Certificate \<Rightarrow> byte list option" where
  "leaf_of cc = (case Certificate cc of [] \<Rightarrow> None | leaf # _ \<Rightarrow> Some leaf)"

definition differ_as_specified :: "serverContextFields \<Rightarrow> serverContextFields \<Rightarrow> bool" where
  "differ_as_specified a b =
     (username a \<noteq> username b \<or> serverURL a \<noteq> serverURL b \<or> token a \<noteq> token b
      \<or> map_option Raw (serverCA a) \<noteq> map_option Raw (serverCA b)
      \<or> map_option leaf_of (clientCert a) \<noteq> map_option leaf_of (clientCert b))"

definition has_leaf :: "serverContextFields \<Rightarrow> bool" where
  "has_leaf a = (case clientCert a of None \<Rightarrow> True | Some cc \<Rightarrow> Certificate cc \<noteq> [])"


text \<open>Concrete inputs.\<close>

definition ex_req :: HttpRequest where
  "ex_req = \<lparr>req_Id = ''r1'', req_Target = ''a1'', req_Method = ''GET'', req_URI = ''/healthz'',
             req_Headers = [\<lparr>hdr_Name = ''Accept'', hdr_Values = [''*/*'']\<rparr>], req_Body = []\<rparr>"

definition ex_ctx :: serverContextFields where
  "ex_ctx = \<lparr>username = ''ServiceAccount'', serverURL = ''https://10.0.0.1:6443'',
             serverCA = None, clientCert = None, token = ''t0'', insecure = True\<rparr>"

definition ex_ctx_cert :: "byte list \<Rightarrow> serverContextFields" where
  "ex_ctx_cert leaf =
     \<lparr>username = ''admin'', serverURL = ''https://10.0.0.1:6443'',
      serverCA = Some (X509 [48, 130]),
      clientCert = Some \<lparr>Certificate = [leaf], PrivateKey = [9]\<rparr>,
      token = [], insecure = False\<rparr>"

definition ex_agent :: agent_state where
  "ex_agent = \<lparr>cancelRegistry = Map.empty, dataflow = [], cancelled = []\<rparr>"

definition ex_env_build_error :: stdlib where
  "ex_env_build_error =
     \<lparr>CanonicalMIMEHeaderKey = (\<lambda>k. k),
      NewRequest_error = (\<lambda>method url. Some ''net/http: invalid method''),
      client_Do = (\<lambda>tr r. Inl ''unreachable'')\<rparr>"

definition ex_env_do_error :: stdlib where
  "ex_env_do_error =
     \<lparr>CanonicalMIMEHeaderKey = (\<lambda>k. k),
      NewRequest_error = (\<lambda>method url. None),
      client_Do = (\<lambda>tr r. Inl ''connection refused'')\<rparr>"

definition ex_env_reads :: "(byte list \<times> read_err) list \<Rightarrow> stdlib" where
  "ex_env_reads reads =
     \<lparr>CanonicalMIMEHeaderKey = (\<lambda>k. k),
      NewRequest_error = (\<lambda>method url. None),
      client_Do = (\<lambda>tr r. Inr \<lparr>get_StatusCode = 200, get_ContentLength = - 1,
                                 get_Header = [], get_Body = reads\<rparr>)\<rparr>"

definition ex_writer :: ResponseWriter where
  "ex_writer = \<lparr>w_Header = [], w_status = None, w_sentHeader = [], w_body = [], w_flushes = 0\<rparr>"

definition ex_controller :: controller_state where
  "ex_controller = \<lparr>apiRequestCounter = (\<lambda>name. 0), agents = [''A1'' \<mapsto> [4, 5]]\<rparr>"

definition ex_request :: "string \<Rightarrow> http_ServerRequest" where
  "ex_request cn =
     \<lparr>r_TLS_PeerCertificates = Some [cn], r_Method = ''GET'', r_RequestURI = ''/healthz'',
      r_Header = [(''Accept-Encoding'', [''gzip'']), (''Accept'', [''*/*''])], r_Body = []\<rparr>"

section \<open>Properties\<close>

subsection \<open>The cancel registry\<close>

text \<open>
  Claim C10. Calling the cancel path with a request id that the cancel registry does
  not hold changes nothing: the registry is as before, no cancel function is called and
  nothing is sent.
\<close>

theorem callCancelFunction_absent:
  assumes "cancelRegistry s id' = None"
  shows "callCancelFunction id' s = s"
  using assms by (simp add: callCancelFunction_def)

theorem callCancelFunction_absent_witness:
  "cancelRegistry \<lparr>cancelRegistry = [''r1'' \<mapsto> 7], dataflow = [], cancelled = []\<rparr> ''r2'' = None
   \<and> callCancelFunction ''r2'' \<lparr>cancelRegistry = [''r1'' \<mapsto> 7], dataflow = [], cancelled = []\<rparr>
       = \<lparr>cancelRegistry = [''r1'' \<mapsto> 7], dataflow = [], cancelled = []\<rparr>"
  using callCancelFunction_absent
    [of "\<lparr>cancelRegistry = [''r1'' \<mapsto> 7], dataflow = [], cancelled = []\<rparr>" "''r2''"]
  by simp

subsection \<open>The executor\<close>

lemmas ex_defs = ex_req_def ex_ctx_def ex_agent_def ex_env_build_error_def ex_env_do_error_def
  ex_env_reads_def

lemmas exec_defs = executeRequest_def executeRequest_body_def NewRequestWithContext_def
  registerCancelFunction_def unregisterCancelFunction_def send_def badGatewayFrame_def
  headerFrame_def chunkFrame_def agent_makeHeaders_def

lemma send_fields:
  "cancelRegistry (send ew s) = cancelRegistry s"
  "cancelled (send ew s) = cancelled s"
  "dataflow (send ew s) = dataflow s @ [ew]"
  by (simp_all add: send_def)

lemma readLoop_frames:
  assumes "\<forall>r\<in>set pre. snd r = ErrNil" and "err \<noteq> ErrNil"
  shows "readLoop req (pre @ (buf, err) # rest) s =
         Some (s\<lparr>dataflow := dataflow s @ dataChunks req (map fst pre @ [buf])
                    @ (if err = Canceled then [] else [chunkFrame req []])\<rparr>)"
  using assms
proof (induction pre arbitrary: s)
  case Nil
  then show ?case by (cases err) (simp_all add: dataChunks_def send_def)
next
  case (Cons r pre)
  obtain b e where r: "r = (b, e)" by (cases r)
  with Cons.prems have e: "e = ErrNil" by simp
  have IH: "\<And>s. readLoop req (pre @ (buf, err) # rest) s =
         Some (s\<lparr>dataflow := dataflow s @ dataChunks req (map fst pre @ [buf])
                    @ (if err = Canceled then [] else [chunkFrame req []])\<rparr>)"
    using Cons.IH Cons.prems by simp
  show ?case
    by (simp add: r e IH dataChunks_def send_def)
qed

lemma empty_chunk_not_data:
  "chunkFrame req [] \<notin> set (dataChunks req bufs)"
  by (auto simp: dataChunks_def chunkFrame_def)

lemma readLoop_None:
  "\<forall>r\<in>set rs. snd r = ErrNil \<Longrightarrow> readLoop req rs s = None"
  by (induction rs arbitrary: s) auto

lemma split_first_error:
  assumes "list_ex (\<lambda>r. snd r \<noteq> ErrNil) rs"
  shows "\<exists>pre buf err rest. rs = pre @ (buf, err) # rest \<and> (\<forall>r\<in>set pre. snd r = ErrNil) \<and> err \<noteq> ErrNil"
proof -
  from assms obtain x where "x \<in> set rs" "snd x \<noteq> ErrNil" by (auto simp: list_ex_iff)
  then obtain pre y rest where "rs = pre @ y # rest" "\<forall>r\<in>set pre. \<not> snd r \<noteq> ErrNil" "snd y \<noteq> ErrNil"
    using split_list_first_prop[of rs "\<lambda>r. snd r \<noteq> ErrNil"] by blast
  then show ?thesis by (cases y) auto
qed

lemma readLoop_registry:
  "readLoop req rs s = Some s' \<Longrightarrow> cancelRegistry s' = cancelRegistry s"
proof (induction rs arbitrary: s)
  case Nil
  then show ?case by simp
next
  case (Cons r rs)
  obtain b e where r: "r = (b, e)" by (cases r)
  show ?case
  proof (cases "e = ErrNil")
    case True
    with Cons.prems r
    have "readLoop req rs (if length b > 0 then send (chunkFrame req b) s else s) = Some s'"
      by simp
    from Cons.IH [OF this] show ?thesis by (simp add: send_fields)
  next
    case False
    with Cons.prems r show ?thesis
      by (auto simp: send_fields Let_def split: if_splits)
  qed
qed

lemma executeRequest_body_registry:
  "executeRequest_body env c req s = Some s' \<Longrightarrow> cancelRegistry s' = cancelRegistry s"
  by (auto simp: executeRequest_body_def send_fields split: sum.splits dest!: readLoop_registry)

lemma executeRequest_body_returns:
  "reaches_return env c req \<longleftrightarrow> executeRequest_body env c req s \<noteq> None"
proof -
  have loop: "list_ex (\<lambda>r. snd r \<noteq> ErrNil) rs \<longleftrightarrow> readLoop req rs s1 \<noteq> None" for rs s1
  proof
    assume "list_ex (\<lambda>r. snd r \<noteq> ErrNil) rs"
    from split_first_error [OF this] show "readLoop req rs s1 \<noteq> None"
      by (auto simp: readLoop_frames)
  next
    assume ret: "readLoop req rs s1 \<noteq> None"
    have "\<not> (\<forall>r\<in>set rs. snd r = ErrNil)"
    proof
      assume "\<forall>r\<in>set rs. snd r = ErrNil"
      from readLoop_None [OF this] ret show False by simp
    qed
    then show "list_ex (\<lambda>r. snd r \<noteq> ErrNil) rs"
      by (simp add: list_ex_iff)
  qed
  show ?thesis
    using loop by (auto simp: reaches_return_def executeRequest_body_def split: sum.splits)
qed

text \<open>
  Claim C1, as amended. When the outbound request cannot be built, or its execution
  against the backend returns an error, the executor emits exactly one frame, the header
  frame with status 502 and contentLength 0 bearing the request's id and target, and
  returns. It emits no chunk after it.
\<close>

theorem executeRequest_upstream_error:
  assumes "(\<exists>e. NewRequestWithContext env (req_Method req) (serverURL c @ req_URI req) (req_Body req) = Inl e)
         \<or> (\<exists>h e. NewRequestWithContext env (req_Method req) (serverURL c @ req_URI req) (req_Body req) = Inr h
                 \<and> client_Do env (makeTransport c) (outboundRequest env c req h) = Inl e)"
  shows "\<exists>s'. executeRequest env c req cancel s = Some s'
             \<and> dataflow s' = dataflow s @
                 [AS_HttpResponse \<lparr>resp_Id = req_Id req, resp_Target = req_Target req,
                                   resp_Status = 502, resp_ContentLength = 0, resp_Headers = []\<rparr>]"
  using assms
  by (auto simp: executeRequest_def executeRequest_body_def registerCancelFunction_def
        unregisterCancelFunction_def send_def badGatewayFrame_def StatusBadGateway_def)

theorem executeRequest_upstream_error_witness:
  "client_Do ex_env_do_error (makeTransport ex_ctx)
       (outboundRequest ex_env_do_error ex_ctx ex_req
          \<lparr>hr_Method = ''GET'', hr_URL = ''https://10.0.0.1:6443/healthz'', hr_Header = [], hr_Body = []\<rparr>)
     = Inl ''connection refused''
   \<and> map_option dataflow (executeRequest ex_env_do_error ex_ctx ex_req 1 ex_agent)
     = Some [AS_HttpResponse \<lparr>resp_Id = ''r1'', resp_Target = ''a1'',
                               resp_Status = 502, resp_ContentLength = 0, resp_Headers = []\<rparr>]"
  using executeRequest_upstream_error [of ex_env_do_error ex_req ex_ctx 1 ex_agent]
  by (auto simp: ex_defs NewRequestWithContext_def)

text \<open>
  The claim as stated asks for a terminating empty chunk after the 502 header frame. On a
  build error the executor sends the header frame alone.
\<close>

theorem executeRequest_upstream_error_counterexample:
  "map_option dataflow (executeRequest ex_env_build_error ex_ctx ex_req 1 ex_agent)
     = Some [AS_HttpResponse \<lparr>resp_Id = ''r1'', resp_Target = ''a1'',
                               resp_Status = 502, resp_ContentLength = 0, resp_Headers = []\<rparr>]
   \<and> map_option dataflow (executeRequest ex_env_build_error ex_ctx ex_req 1 ex_agent)
     \<noteq> Some [AS_HttpResponse \<lparr>resp_Id = ''r1'', resp_Target = ''a1'',
                               resp_Status = 502, resp_ContentLength = 0, resp_Headers = []\<rparr>,
             AS_HttpChunkedResponse \<lparr>chunk_Id = ''r1'', chunk_Target = ''a1'', chunk_Body = []\<rparr>]"
  by (simp add: ex_defs exec_defs StatusBadGateway_def)

text \<open>
  Claim C2, as amended. After the header frame the executor sends one chunk frame for
  each non-empty read (\<open>dataChunks\<close>, none of which has an empty body). When the first
  read error is end of file or any error other than \<open>context.Canceled\<close>, it then sends
  exactly one chunk with an empty body, bearing the request's id and target, and
  returns. When the error is \<open>context.Canceled\<close> it returns without sending a
  terminating chunk.
\<close>

theorem executeRequest_body_end:
  assumes "NewRequestWithContext env (req_Method req) (serverURL c @ req_URI req) (req_Body req) = Inr h"
      and "client_Do env (makeTransport c) (outboundRequest env c req h) = Inr get"
      and "get_Body get = pre @ (buf, err) # rest"
      and "\<forall>r\<in>set pre. snd r = ErrNil"
      and "err \<noteq> ErrNil"
  shows "\<exists>s'. executeRequest env c req cancel s = Some s'
             \<and> dataflow s' = dataflow s @ [headerFrame req get]
                 @ dataChunks req (map fst pre @ [buf])
                 @ (if err = Canceled then []
                    else [AS_HttpChunkedResponse \<lparr>chunk_Id = req_Id req, chunk_Target = req_Target req,
                                                   chunk_Body = []\<rparr>])
             \<and> AS_HttpChunkedResponse \<lparr>chunk_Id = req_Id req, chunk_Target = req_Target req,
                                        chunk_Body = []\<rparr>
                 \<notin> set (dataChunks req (map fst pre @ [buf]))"
  using assms readLoop_frames [of pre err req buf rest]
    empty_chunk_not_data [of req "map fst pre @ [buf]"]
  by (simp add: executeRequest_def executeRequest_body_def registerCancelFunction_def
        unregisterCancelFunction_def send_def chunkFrame_def)

theorem executeRequest_body_end_witness:
  "get_Body \<lparr>get_StatusCode = 200, get_ContentLength = - 1, get_Header = [],
             get_Body = [([1, 2], ErrNil), ([3], EOF)]\<rparr> = [([1, 2], ErrNil)] @ ([3], EOF) # []
   \<and> map_option dataflow
        (executeRequest (ex_env_reads [([1, 2], ErrNil), ([3], EOF)]) ex_ctx ex_req 1 ex_agent)
     = Some [AS_HttpResponse \<lparr>resp_Id = ''r1'', resp_Target = ''a1'', resp_Status = 200,
                               resp_ContentLength = - 1, resp_Headers = []\<rparr>,
             AS_HttpChunkedResponse \<lparr>chunk_Id = ''r1'', chunk_Target = ''a1'', chunk_Body = [1, 2]\<rparr>,
             AS_HttpChunkedResponse \<lparr>chunk_Id = ''r1'', chunk_Target = ''a1'', chunk_Body = [3]\<rparr>,
             AS_HttpChunkedResponse \<lparr>chunk_Id = ''r1'', chunk_Target = ''a1'', chunk_Body = []\<rparr>]"
  using executeRequest_body_end
    [of "ex_env_reads [([1, 2], ErrNil), ([3], EOF)]" ex_req ex_ctx
        "\<lparr>hr_Method = ''GET'', hr_URL = ''https://10.0.0.1:6443/healthz'', hr_Header = [], hr_Body = []\<rparr>"
        "\<lparr>get_StatusCode = 200, get_ContentLength = - 1, get_Header = [],
             get_Body = [([1, 2], ErrNil), ([3], EOF)]\<rparr>"
        "[([1, 2], ErrNil)]" "[3]" EOF "[]" 1 ex_agent]
  by (auto simp: ex_defs NewRequestWithContext_def dataChunks_def headerFrame_def
        chunkFrame_def agent_makeHeaders_def)

text \<open>
  The claim as stated includes context cancellation among the ends that emit the
  terminating chunk. A body whose second read is cancelled ends with the data chunk.
\<close>

theorem executeRequest_body_end_counterexample:
  "map_option dataflow
        (executeRequest (ex_env_reads [([1, 2], ErrNil), ([], Canceled)]) ex_ctx ex_req 1 ex_agent)
     = Some [AS_HttpResponse \<lparr>resp_Id = ''r1'', resp_Target = ''a1'', resp_Status = 200,
                               resp_ContentLength = - 1, resp_Headers = []\<rparr>,
             AS_HttpChunkedResponse \<lparr>chunk_Id = ''r1'', chunk_Target = ''a1'', chunk_Body = [1, 2]\<rparr>]
   \<and> map_option dataflow
        (executeRequest (ex_env_reads [([1, 2], ErrNil), ([], Canceled)]) ex_ctx ex_req 1 ex_agent)
     \<noteq> Some [AS_HttpResponse \<lparr>resp_Id = ''r1'', resp_Target = ''a1'', resp_Status = 200,
                               resp_ContentLength = - 1, resp_Headers = []\<rparr>,
             AS_HttpChunkedResponse \<lparr>chunk_Id = ''r1'', chunk_Target = ''a1'', chunk_Body = [1, 2]\<rparr>,
             AS_HttpChunkedResponse \<lparr>chunk_Id = ''r1'', chunk_Target = ''a1'', chunk_Body = []\<rparr>]"
  by (simp add: ex_defs exec_defs)

lemma readLoop_run_last:
  "readLoop req rs s = map_option (\<lambda>tr. last (s # tr)) (readLoop_run req rs s)"
proof (induction rs arbitrary: s)
  case Nil
  then show ?case by simp
next
  case (Cons r rs)
  obtain b e where r: "r = (b, e)" by (cases r)
  show ?case
    by (cases "readLoop_run req rs (if length b > 0 then send (chunkFrame req b) s else s)")
       (auto simp: r Cons.IH Let_def)
qed

lemma executeRequest_body_run_last:
  "executeRequest_body env c req s
   = map_option (\<lambda>tr. last (s # tr)) (executeRequest_body_run env c req s)"
  by (auto simp: executeRequest_body_def executeRequest_body_run_def readLoop_run_last
        option.map_comp comp_def split: sum.splits option.splits)

lemma executeRequest_run_last:
  "executeRequest env c req cancel s = map_option last (executeRequest_run env c req cancel s)"
  by (simp add: executeRequest_def executeRequest_run_def executeRequest_body_run_last Let_def
        option.map_comp comp_def)

lemma readLoop_run_registry:
  "readLoop_run req rs s = Some tr \<Longrightarrow> \<forall>x\<in>set tr. cancelRegistry x = cancelRegistry s"
proof (induction rs arbitrary: s tr)
  case Nil
  then show ?case by simp
next
  case (Cons r rs)
  obtain b e where r: "r = (b, e)" by (cases r)
  let ?s1 = "if length b > 0 then send (chunkFrame req b) s else s"
  have s1: "cancelRegistry ?s1 = cancelRegistry s" by (simp add: send_fields)
  show ?case
  proof (cases "e = ErrNil")
    case True
    with Cons.prems r obtain tr' where tr': "readLoop_run req rs ?s1 = Some tr'"
      and tr: "tr = (if length b > 0 then [send (chunkFrame req b) s] else []) @ tr'"
      by (auto simp: Let_def split: if_splits)
    from Cons.IH [OF tr'] s1 tr show ?thesis
      by (auto simp: send_fields split: if_splits)
  next
    case False
    with Cons.prems r show ?thesis
      by (auto simp: send_fields Let_def split: if_splits)
  qed
qed

lemma executeRequest_body_run_registry:
  "executeRequest_body_run env c req s = Some tr
   \<Longrightarrow> \<forall>x\<in>set tr. cancelRegistry x = cancelRegistry s"
  by (auto simp: executeRequest_body_run_def send_fields
        split: sum.splits dest!: readLoop_run_registry)

text \<open>
  Claim C9. In every run of the executor that reaches a return (build error, execute
  error, end of file, cancellation or read error), the run starts with the registration,
  and in every state from there to the end of the function body the cancel registry maps
  the request's id to the executor's cancel function, so that a \<open>callCancelFunction\<close>
  for the id at any of these moments calls it. The last step is the deferred
  unregistration: the registry the executor leaves is the one it found, without the id,
  and a later \<open>callCancelFunction\<close> for the id does nothing. The last state of the run
  is what \<open>executeRequest\<close> returns.
\<close>

theorem executeRequest_cancel_registry:
  assumes "reaches_return env c req"
  shows "\<exists>mid s'. executeRequest_run env c req cancel s
                     = Some (registerCancelFunction (req_Id req) cancel s # mid @ [s'])
           \<and> (\<forall>x\<in>set (registerCancelFunction (req_Id req) cancel s # mid).
                  cancelRegistry x (req_Id req) = Some cancel
                  \<and> cancelRegistry x = (cancelRegistry s)(req_Id req \<mapsto> cancel)
                  \<and> cancelled (callCancelFunction (req_Id req) x) = cancelled x @ [cancel])
           \<and> executeRequest env c req cancel s = Some s'
           \<and> cancelRegistry s' = (cancelRegistry s)(req_Id req := None)
           \<and> cancelRegistry s' (req_Id req) = None
           \<and> callCancelFunction (req_Id req) s' = s'"
proof -
  let ?s1 = "registerCancelFunction (req_Id req) cancel s"
  from assms have "executeRequest_body env c req ?s1 \<noteq> None"
    using executeRequest_body_returns [of env c req ?s1] by simp
  then obtain mid where body: "executeRequest_body_run env c req ?s1 = Some mid"
    by (auto simp: executeRequest_body_run_last)
  let ?s' = "unregisterCancelFunction (req_Id req) (last (?s1 # mid))"
  have run: "executeRequest_run env c req cancel s = Some (?s1 # mid @ [?s'])"
    using body by (simp add: executeRequest_run_def Let_def)
  have reg1: "cancelRegistry ?s1 = (cancelRegistry s)(req_Id req \<mapsto> cancel)"
    by (simp add: registerCancelFunction_def)
  have mid: "\<forall>x\<in>set (?s1 # mid). cancelRegistry x = (cancelRegistry s)(req_Id req \<mapsto> cancel)"
    using executeRequest_body_run_registry [OF body] reg1 by simp
  then have during: "\<forall>x\<in>set (?s1 # mid).
                  cancelRegistry x (req_Id req) = Some cancel
                  \<and> cancelRegistry x = (cancelRegistry s)(req_Id req \<mapsto> cancel)
                  \<and> cancelled (callCancelFunction (req_Id req) x) = cancelled x @ [cancel]"
    by (simp add: callCancelFunction_def)
  have "last (?s1 # mid) \<in> set (?s1 # mid)" by (rule last_in_set) simp
  with mid have "cancelRegistry (last (?s1 # mid)) = (cancelRegistry s)(req_Id req \<mapsto> cancel)"
    by blast
  then have after: "cancelRegistry ?s' = (cancelRegistry s)(req_Id req := None)"
    by (simp add: unregisterCancelFunction_def)
  then have gone: "cancelRegistry ?s' (req_Id req) = None" by simp
  have ex: "executeRequest env c req cancel s = Some ?s'"
    using run by (simp add: executeRequest_run_last)
  from gone have noop: "callCancelFunction (req_Id req) ?s' = ?s'"
    by (simp add: callCancelFunction_def)
  from run during ex after gone noop show ?thesis by blast
qed

theorem executeRequest_cancel_registry_witness:
  "reaches_return (ex_env_reads [([1, 2], ErrNil), ([], Canceled)]) ex_ctx ex_req
   \<and> map_option (map cancelRegistry)
       (executeRequest_run (ex_env_reads [([1, 2], ErrNil), ([], Canceled)]) ex_ctx ex_req 1 ex_agent)
       = Some [[''r1'' \<mapsto> 1], [''r1'' \<mapsto> 1], [''r1'' \<mapsto> 1], Map.empty]
   \<and> map_option cancelRegistry
       (executeRequest (ex_env_reads [([1, 2], ErrNil), ([], Canceled)]) ex_ctx ex_req 1 ex_agent)
       = Some Map.empty"
  using executeRequest_cancel_registry
    [of "ex_env_reads [([1, 2], ErrNil), ([], Canceled)]" ex_ctx ex_req 1 ex_agent]
  by (auto simp: ex_defs reaches_return_def NewRequestWithContext_def executeRequest_run_def
        executeRequest_body_run_def registerCancelFunction_def unregisterCancelFunction_def
        send_def Let_def)


subsection \<open>The agent's hello and credential refresher\<close>

text \<open>
  Claim C4: every hello frame that an agent sends first on its stream carries the
  protocol version constant, 10. The hello of \<open>runKubernetesTunnel\<close> does. The hello
  of \<open>runTunnel\<close> leaves the field unset and so carries 0, which the constant's own
  comment says makes the controller close the connection.
\<close>

theorem hello_protocolVersion:
  "ProtocolVersion (runKubernetesTunnel_hello namespaces) = CurrentProtocolVersion
   \<and> CurrentProtocolVersion = 10
   \<and> ProtocolVersion (runTunnel_hello namespaces) = 0
   \<and> ProtocolVersion (runTunnel_hello namespaces) \<noteq> CurrentProtocolVersion"
  by (simp add: runKubernetesTunnel_hello_def runTunnel_hello_def CurrentProtocolVersion_def)

lemma isSameAs_total:
  assumes "has_leaf a" and "has_leaf b"
  shows "isSameAs a b = Inr (\<not> (differ_as_specified a b \<or> insecure a \<noteq> insecure b))"
proof (cases "username a \<noteq> username b \<or> serverURL a \<noteq> serverURL b
         \<or> token a \<noteq> token b \<or> insecure a \<noteq> insecure b")
  case True
  then show ?thesis by (auto simp: isSameAs_def differ_as_specified_def)
next
  case scalars: False
  show ?thesis
  proof (cases "serverCA a")
    case None
    note ca = None
    show ?thesis
    proof (cases "serverCA b")
      case None
      with ca scalars assms show ?thesis
        by (cases "clientCert a"; cases "clientCert b")
           (auto simp: isSameAs_def differ_as_specified_def has_leaf_def leaf_of_def
              split: list.splits)
    next
      case (Some cb)
      with ca scalars show ?thesis by (simp add: isSameAs_def differ_as_specified_def)
    qed
  next
    case (Some ca')
    note ca = Some
    show ?thesis
    proof (cases "serverCA b")
      case None
      with ca scalars show ?thesis by (simp add: isSameAs_def differ_as_specified_def)
    next
      case (Some cb)
      with ca scalars assms show ?thesis
        by (cases "clientCert a"; cases "clientCert b")
           (auto simp: isSameAs_def differ_as_specified_def has_leaf_def leaf_of_def
              x509_Equal_def split: list.splits)
    qed
  qed
qed

text \<open>
  Claim C6, as amended. One round of the credential refresher replaces the current
  snapshot with the newly loaded one if and only if the two differ by username, server
  URL, token, CA certificate bytes, client certificate leaf or the insecure flag;
  otherwise the current snapshot is left as it is.
\<close>

theorem updateServerContextTicker_body_swap:
  assumes "has_leaf cur" and "has_leaf loaded"
  shows "updateServerContextTicker_body loaded cur
         = Inr (if differ_as_specified cur loaded \<or> insecure cur \<noteq> insecure loaded
                then loaded else cur)"
  using isSameAs_total [OF assms] by (simp add: updateServerContextTicker_body_def)

theorem updateServerContextTicker_body_swap_witness:
  "has_leaf (ex_ctx_cert [1, 2]) \<and> has_leaf (ex_ctx_cert [1, 3])
   \<and> updateServerContextTicker_body (ex_ctx_cert [1, 3]) (ex_ctx_cert [1, 2])
       = Inr (ex_ctx_cert [1, 3])
   \<and> updateServerContextTicker_body (ex_ctx_cert [1, 2]) (ex_ctx_cert [1, 2])
       = Inr (ex_ctx_cert [1, 2])"
  using updateServerContextTicker_body_swap [of "ex_ctx_cert [1, 2]" "ex_ctx_cert [1, 3]"]
    updateServerContextTicker_body_swap [of "ex_ctx_cert [1, 2]" "ex_ctx_cert [1, 2]"]
  by (simp add: ex_ctx_cert_def has_leaf_def differ_as_specified_def leaf_of_def)

text \<open>
  The claim as stated leaves the insecure flag out. Two snapshots that agree in the five
  listed attributes and differ in the flag are swapped.
\<close>

theorem updateServerContextTicker_body_swap_counterexample:
  "\<not> differ_as_specified ex_ctx (ex_ctx\<lparr>insecure := False\<rparr>)
   \<and> updateServerContextTicker_body (ex_ctx\<lparr>insecure := False\<rparr>) ex_ctx
       = Inr (ex_ctx\<lparr>insecure := False\<rparr>)
   \<and> ex_ctx\<lparr>insecure := False\<rparr> \<noteq> ex_ctx"
  by (simp add: ex_ctx_def differ_as_specified_def updateServerContextTicker_body_def
        isSameAs_def)

subsection \<open>The controller's handler\<close>

lemmas ctl_ex_defs = ex_writer_def ex_controller_def ex_request_def

lemma makeHeaders_foldl:
  "foldl (\<lambda>ret (name, values).
              if name \<noteq> ''Accept-Encoding''
              then ret @ [\<lparr>hdr_Name = name, hdr_Values = values\<rparr>]
              else ret) acc headers
   = acc @ map (\<lambda>(name, values). \<lparr>hdr_Name = name, hdr_Values = values\<rparr>)
             (filter (\<lambda>(name, values). name \<noteq> ''Accept-Encoding'') headers)"
  by (induction headers arbitrary: acc) (auto split: prod.splits)

lemma makeHeaders_pairs:
  "map (\<lambda>h. (hdr_Name h, hdr_Values h)) (makeHeaders headers)
   = filter (\<lambda>(name, values). name \<noteq> ''Accept-Encoding'') headers"
  unfolding makeHeaders_def makeHeaders_foldl
  by (induction headers) auto

lemma map_of_filter_key:
  "map_of (filter (\<lambda>(k, v). k \<noteq> a) xs) = (map_of xs)(a := None)"
  by (induction xs) (auto simp: fun_eq_iff)

lemma responseLoop_chunk_first:
  assumes "\<forall>resp. AS_HttpResponse resp \<notin> set pre" and "\<not> seenHeader l"
  shows "responseLoop canon (map Frame pre @ Frame (AS_HttpChunkedResponse ch) # rest) l
         = Some (l\<lparr>hl_w := WriteHeader StatusBadGateway (hl_w l)\<rparr>)"
  using assms
proof (induction pre)
  case Nil
  then show ?case by simp
next
  case (Cons f pre)
  then show ?case by (cases f) auto
qed

text \<open>
  Claim C7. When the registry holds no session for the identity derived from the
  client certificate (no entry, or an empty list), the handler answers 502 on a fresh
  response writer, writes no body, forwards nothing, and returns; the request counter
  of that identity has gone up by exactly one and no other counter has changed.
\<close>

theorem kubernetesAPIHandler_no_agent:
  assumes "r_TLS_PeerCertificates r = Some (cn # cns)"
      and "agents st (firstLabel cn) = None \<or> agents st (firstLabel cn) = Some []"
      and "w_status w = None"
  shows "\<exists>w'. kubernetesAPIHandler canon Intn ulid out st w r
               = Inr \<lparr>out_counter = (apiRequestCounter st)
                                       (firstLabel cn := apiRequestCounter st (firstLabel cn) + 1),
                      out_forwarded = None, out_return = NoAgent w'\<rparr>
             \<and> w_status w' = Some 502 \<and> w_body w' = w_body w"
  using assms
  by (auto simp: kubernetesAPIHandler_def WriteHeader_def StatusBadGateway_def Let_def)

theorem kubernetesAPIHandler_no_agent_witness:
  "r_TLS_PeerCertificates (ex_request ''A2.agents.example'') = Some (''A2.agents.example'' # [])
   \<and> agents ex_controller (firstLabel ''A2.agents.example'') = None
   \<and> w_status ex_writer = None
   \<and> kubernetesAPIHandler (\<lambda>k. k) (\<lambda>n. 0) ''01F0'' [] ex_controller ex_writer
        (ex_request ''A2.agents.example'')
      = Inr \<lparr>out_counter = (\<lambda>name. 0)(''A2'' := 1), out_forwarded = None,
             out_return = NoAgent (ex_writer\<lparr>w_status := Some 502\<rparr>)\<rparr>"
  using kubernetesAPIHandler_no_agent
    [of "ex_request ''A2.agents.example''" "''A2.agents.example''" "[]" ex_controller ex_writer
        "\<lambda>k. k" "\<lambda>n. 0" "''01F0''" "[]"]
  by (auto simp: ctl_ex_defs firstLabel_def kubernetesAPIHandler_def WriteHeader_def
        StatusBadGateway_def)

text \<open>
  Claim C5. Whenever the handler forwards a request, the headers of the forwarded
  \<open>HttpRequest\<close> frame are the entries of the client's request headers whose name is
  not \<open>Accept-Encoding\<close>, each with its name and value list unchanged: as a list in
  the order of the map's traversal, and so as a map.
\<close>

theorem kubernetesAPIHandler_forwarded_headers:
  assumes "kubernetesAPIHandler canon Intn ulid out st w r = Inr res"
      and "out_forwarded res = Some (agent, req)"
  shows "map (\<lambda>h. (hdr_Name h, hdr_Values h)) (req_Headers req)
           = filter (\<lambda>(name, values). name \<noteq> ''Accept-Encoding'') (r_Header r)
       \<and> map_of (map (\<lambda>h. (hdr_Name h, hdr_Values h)) (req_Headers req))
           = (map_of (r_Header r))(''Accept-Encoding'' := None)"
proof -
  from assms have "req_Headers req = makeHeaders (r_Header r)"
    by (auto simp: kubernetesAPIHandler_def Let_def split: option.splits list.splits if_splits)
  then show ?thesis
    by (simp add: makeHeaders_pairs map_of_filter_key)
qed

theorem kubernetesAPIHandler_forwarded_headers_witness:
  "kubernetesAPIHandler (\<lambda>k. k) (\<lambda>n. 1) ''01F0'' [Closed] ex_controller ex_writer
        (ex_request ''A1.agents.example'')
     = Inr \<lparr>out_counter = (\<lambda>name. 0)(''A1'' := 1),
            out_forwarded =
              Some (5, \<lparr>req_Id = ''01F0'', req_Target = ''A1'', req_Method = ''GET'',
                        req_URI = ''/healthz'',
                        req_Headers = [\<lparr>hdr_Name = ''Accept'', hdr_Values = [''*/*'']\<rparr>],
                        req_Body = []\<rparr>),
            out_return =
              Returned \<lparr>hl_w = ex_writer\<lparr>w_status := Some 502\<rparr>,
                        hl_rHeader = [(''Accept-Encoding'', [''gzip'']), (''Accept'', [''*/*''])],
                        seenHeader = False, isChunked = False, cleanClose = True\<rparr>\<rparr>
   \<and> map_of [(''Accept'', [''*/*''])]
     = (map_of [(''Accept-Encoding'', [''gzip'']), (''Accept'', [''*/*''])])(''Accept-Encoding'' := None)"
  using kubernetesAPIHandler_forwarded_headers
    [of "\<lambda>k. k" "\<lambda>n. 1" "''01F0''" "[Closed]" ex_controller ex_writer
        "ex_request ''A1.agents.example''"
        "\<lparr>out_counter = (\<lambda>name. 0)(''A1'' := 1),
            out_forwarded =
              Some (5, \<lparr>req_Id = ''01F0'', req_Target = ''A1'', req_Method = ''GET'',
                        req_URI = ''/healthz'',
                        req_Headers = [\<lparr>hdr_Name = ''Accept'', hdr_Values = [''*/*'']\<rparr>],
                        req_Body = []\<rparr>),
            out_return =
              Returned \<lparr>hl_w = ex_writer\<lparr>w_status := Some 502\<rparr>,
                        hl_rHeader = [(''Accept-Encoding'', [''gzip'']), (''Accept'', [''*/*''])],
                        seenHeader = False, isChunked = False, cleanClose = True\<rparr>\<rparr>" 5
        "\<lparr>req_Id = ''01F0'', req_Target = ''A1'', req_Method = ''GET'', req_URI = ''/healthz'',
                 req_Headers = [\<lparr>hdr_Name = ''Accept'', hdr_Values = [''*/*'']\<rparr>], req_Body = []\<rparr>"]
  by (simp add: ctl_ex_defs firstLabel_def kubernetesAPIHandler_def makeHeaders_def Let_def
        WriteHeader_def StatusBadGateway_def)

text \<open>
  Claim C8. When an \<open>HttpChunkedResponse\<close> frame arrives and no \<open>HttpResponse\<close>
  frame has arrived before it, the handler answers 502 and returns; the body written to
  the client is what it was before, nothing.
\<close>

theorem kubernetesAPIHandler_chunk_before_header:
  assumes "kubernetesAPIHandler canon Intn ulid
             (map Frame pre @ Frame (AS_HttpChunkedResponse ch) # rest) st w r = Inr res"
      and "out_forwarded res \<noteq> None"
      and "\<forall>resp. AS_HttpResponse resp \<notin> set pre"
      and "w_status w = None"
  shows "\<exists>l. out_return res = Returned l \<and> w_status (hl_w l) = Some 502
             \<and> w_body (hl_w l) = w_body w \<and> \<not> seenHeader l"
proof -
  let ?l0 = "\<lparr>hl_w = w, hl_rHeader = r_Header r, seenHeader = False,
              isChunked = False, cleanClose = False\<rparr>"
  have loop: "responseLoop canon (map Frame pre @ Frame (AS_HttpChunkedResponse ch) # rest) ?l0
              = Some (?l0\<lparr>hl_w := WriteHeader StatusBadGateway (hl_w ?l0)\<rparr>)"
    using assms(3) by (intro responseLoop_chunk_first) simp_all
  from assms(1,2) have "out_return res =
      (case responseLoop canon (map Frame pre @ Frame (AS_HttpChunkedResponse ch) # rest) ?l0 of
         None \<Rightarrow> Blocked | Some l \<Rightarrow> Returned l)"
    by (auto simp: kubernetesAPIHandler_def Let_def split: option.splits list.splits if_splits)
  with loop assms(4) show ?thesis
    by (simp add: WriteHeader_def StatusBadGateway_def)
qed

theorem kubernetesAPIHandler_chunk_before_header_witness:
  "kubernetesAPIHandler (\<lambda>k. k) (\<lambda>n. 1) ''01F0''
      (map Frame [AS_Nil] @ Frame (AS_HttpChunkedResponse
          \<lparr>chunk_Id = ''01F0'', chunk_Target = ''A1'', chunk_Body = [1, 2]\<rparr>) # [])
      ex_controller ex_writer (ex_request ''A1.agents.example'')
     = Inr \<lparr>out_counter = (\<lambda>name. 0)(''A1'' := 1),
            out_forwarded =
              Some (5, \<lparr>req_Id = ''01F0'', req_Target = ''A1'', req_Method = ''GET'',
                        req_URI = ''/healthz'',
                        req_Headers = [\<lparr>hdr_Name = ''Accept'', hdr_Values = [''*/*'']\<rparr>],
                        req_Body = []\<rparr>),
            out_return =
              Returned \<lparr>hl_w = ex_writer\<lparr>w_status := Some 502\<rparr>,
                        hl_rHeader = [(''Accept-Encoding'', [''gzip'']), (''Accept'', [''*/*''])],
                        seenHeader = False, isChunked = False, cleanClose = False\<rparr>\<rparr>
   \<and> w_status ex_writer = None \<and> w_body (ex_writer\<lparr>w_status := Some 502\<rparr>) = []"
  using kubernetesAPIHandler_chunk_before_header
    [of "\<lambda>k. k" "\<lambda>n. 1" "''01F0''" "[AS_Nil]"
        "\<lparr>chunk_Id = ''01F0'', chunk_Target = ''A1'', chunk_Body = [1, 2]\<rparr>" "[]"
        ex_controller ex_writer "ex_request ''A1.agents.example''"
        "\<lparr>out_counter = (\<lambda>name. 0)(''A1'' := 1),
            out_forwarded =
              Some (5, \<lparr>req_Id = ''01F0'', req_Target = ''A1'', req_Method = ''GET'',
                        req_URI = ''/healthz'',
                        req_Headers = [\<lparr>hdr_Name = ''Accept'', hdr_Values = [''*/*'']\<rparr>],
                        req_Body = []\<rparr>),
            out_return =
              Returned \<lparr>hl_w = ex_writer\<lparr>w_status := Some 502\<rparr>,
                        hl_rHeader = [(''Accept-Encoding'', [''gzip'']), (''Accept'', [''*/*''])],
                        seenHeader = False, isChunked = False, cleanClose = False\<rparr>\<rparr>"]
  by (simp add: ctl_ex_defs firstLabel_def kubernetesAPIHandler_def makeHeaders_def Let_def
        WriteHeader_def StatusBadGateway_def)








text \<open>
  The loop over the names of \<open>w.Header()\<close> at the head of the \<open>HttpResponse\<close> branch
  deletes each name from the request's header map \<open>r.Header\<close>, not from the writer. A
  writer that held a header beforehand would keep it, as this run shows.
\<close>

lemma kubernetesAPIHandler_default_headers_kept:
  "kubernetesAPIHandler canon (\<lambda>n. 1) ''01F0''
      [Frame (AS_HttpResponse \<lparr>resp_Id = ''01F0'', resp_Target = ''A1'', resp_Status = 200,
                                resp_ContentLength = 0, resp_Headers = []\<rparr>)]
      ex_controller (ex_writer\<lparr>w_Header := [(''Content-Type'', [''text/plain''])]\<rparr>)
      (ex_request ''A1.agents.example'')
     = Inr \<lparr>out_counter = (\<lambda>name. 0)(''A1'' := 1),
            out_forwarded =
              Some (5, \<lparr>req_Id = ''01F0'', req_Target = ''A1'', req_Method = ''GET'',
                        req_URI = ''/healthz'',
                        req_Headers = [\<lparr>hdr_Name = ''Accept'', hdr_Values = [''*/*'']\<rparr>],
                        req_Body = []\<rparr>),
            out_return =
              Returned \<lparr>hl_w = \<lparr>w_Header = [(''Content-Type'', [''text/plain''])],
                                 w_status = Some 200,
                                 w_sentHeader = [(''Content-Type'', [''text/plain''])],
                                 w_body = [], w_flushes = 0\<rparr>,
                        hl_rHeader = Header_Del canon ''Content-Type''
                                       [(''Accept-Encoding'', [''gzip'']), (''Accept'', [''*/*''])],
                        seenHeader = True, isChunked = False, cleanClose = True\<rparr>\<rparr>"
  by (simp add: ctl_ex_defs firstLabel_def kubernetesAPIHandler_def makeHeaders_def Let_def
        WriteHeader_def addHeaders_def)



end
